theory Spec2Isabelle
  imports Complex_Main
begin

section \<open>Numbers\<close>

text \<open>
  The event-loop variant (\<^verbatim>\<open>async_event_loop\<close>) computes with Python's \<^verbatim>\<open>Decimal\<close>:
  every finite \<^verbatim>\<open>Decimal\<close> is a rational number, and sums, differences and products
  are exact as long as a result fits the context's 28 significant digits. They are modelled
  as \<^typ>\<open>rat\<close>. The only non-finite value of the source is \<^verbatim>\<open>Decimal("Infinity")\<close>, the
  limit of the last bracket.

  The sequential and the threaded variants (\<^verbatim>\<open>single_thread\<close>, \<^verbatim>\<open>shared_state\<close>) compute
  the same quantities with binary floating point. Their definitions below carry the suffix
  \<open>_st\<close> and read the float operations as operations on the rationals; the rounding error
  of a float operation is outside this model. Every concrete evaluation of an \<open>_st\<close>
  function below is at an input where the float operations are exact as well or round to the
  value shown.
\<close>

type_synonym decimal = rat

datatype limit = Finite decimal | Infinity

section \<open>Rounding at the output boundary\<close>

text \<open>
  \<^verbatim>\<open>round_dollar\<close> (analysis_engine.py) is \<^verbatim>\<open>d.quantize(Decimal("1"), rounding=ROUND_HALF_UP)\<close>:
  the nearest integer, a tie going away from zero.
\<close>

definition round_dollar :: "decimal \<Rightarrow> int" where
  "round_dollar d = (if 0 \<le> d then \<lfloor>d + 1 / 2\<rfloor> else - \<lfloor>- d + 1 / 2\<rfloor>)"

text \<open>
  Python 3's built-in \<^verbatim>\<open>round(x)\<close> on a float, used as \<^verbatim>\<open>int(round(x))\<close> by the
  sequential and the threaded variant: the nearest integer, a tie going to the even
  neighbour.
\<close>

definition py_round :: "rat \<Rightarrow> int" where
  "py_round x =
     (let f = \<lfloor>x\<rfloor>; r = x - of_int f
      in if r < 1 / 2 then f
         else if 1 / 2 < r then f + 1
         else if even f then f else f + 1)"

section \<open>Progressive brackets (event-loop variant)\<close>

text \<open>
  \<^verbatim>\<open>calculate_bracket_tax(income, brackets)\<close>: the loop over the \<^verbatim>\<open>(limit, rate)\<close> pairs
  carries \<^verbatim>\<open>tax\<close> and \<^verbatim>\<open>previous_limit\<close>, and leaves at the first bracket the income
  does not reach. \<^verbatim>\<open>income > previous_limit\<close> is false once \<^verbatim>\<open>previous_limit\<close> is
  infinite, and \<^verbatim>\<open>min(income, Infinity)\<close> is the income.
\<close>

fun min_limit :: "decimal \<Rightarrow> limit \<Rightarrow> decimal" where
  "min_limit income (Finite l) = min income l"
| "min_limit income Infinity = income"

fun bracket_loop :: "decimal \<Rightarrow> (limit \<times> decimal) list \<Rightarrow> decimal \<Rightarrow> limit \<Rightarrow> decimal" where
  "bracket_loop income [] tax previous_limit = tax"
| "bracket_loop income ((lmt, rate) # brackets) tax Infinity = tax"
| "bracket_loop income ((lmt, rate) # brackets) tax (Finite p) =
     (if income > p
      then bracket_loop income brackets (tax + (min_limit income lmt - p) * rate) lmt
      else tax)"

definition calculate_bracket_tax :: "decimal \<Rightarrow> (limit \<times> decimal) list \<Rightarrow> decimal" where
  "calculate_bracket_tax income brackets = bracket_loop income brackets 0 (Finite 0)"

definition fed_brackets :: "(limit \<times> decimal) list" where
  "fed_brackets =
     [(Finite 100000, 5 / 100), (Finite 200000, 10 / 100),
      (Finite 300000, 15 / 100), (Infinity, 20 / 100)]"

definition tx_brackets :: "(limit \<times> decimal) list" where
  "tx_brackets = [(Finite 90000, 3 / 100), (Finite 200000, 5 / 100), (Infinity, 7 / 100)]"

section \<open>Federal tax (event-loop variant)\<close>

record fed_data =
  gross :: decimal
  taxable :: decimal
  deduction_type :: string
  surcharge :: decimal
  total :: decimal

text \<open>
  \<^verbatim>\<open>calculate_federal_tax\<close>; \<open>donations\<close> are the amounts of the household's rows of
  \<^verbatim>\<open>charitable_donations\<close>, which the source reads from the store.
\<close>

definition calculate_federal_tax ::
  "decimal list \<Rightarrow> decimal \<Rightarrow> decimal \<Rightarrow> decimal \<Rightarrow> int \<Rightarrow> fed_data" where
  "calculate_federal_tax donations w2_income net_capital_gain ewma_income num_children =
     (let gross_income = w2_income + net_capital_gain;
          std_deduction = 10000;
          charitable_total = sum_list donations;
          child_rate = min (of_int num_children * (1 / 100)) (10 / 100);
          base_for_child = max 0 (gross_income - charitable_total);
          child_deduction = base_for_child * child_rate;
          itemized_total = charitable_total + child_deduction;
          (deduction_amount, deduction_kind) =
             (if itemized_total > std_deduction then (itemized_total, ''ITEMIZED'')
              else (std_deduction, ''STANDARD''));
          taxable_income = max 0 (gross_income - deduction_amount);
          bracket_tax = calculate_bracket_tax taxable_income fed_brackets;
          surcharge_amount =
             (if ewma_income > 1000000 then gross_income * (2 / 100) else 0);
          total_federal = bracket_tax + surcharge_amount
      in \<lparr>gross = gross_income, taxable = taxable_income, deduction_type = deduction_kind,
          surcharge = surcharge_amount, total = total_federal\<rparr>)"

section \<open>State tax (event-loop variant)\<close>

text \<open>
  \<^verbatim>\<open>calculate_state_tax\<close> returns the pair \<^verbatim>\<open>(state_tax, state_surcharge)\<close>; both start at
  zero and stay there when the state is neither of the two strings.
\<close>

definition calculate_state_tax ::
  "string \<Rightarrow> decimal \<Rightarrow> decimal \<Rightarrow> fed_data \<Rightarrow> decimal \<Rightarrow> decimal \<times> decimal" where
  "calculate_state_tax state w2_income net_capital_gain fed fed_deduction_amount =
     (if state = ''California'' then
        (let ca_gains_tax = (6 / 100) * max 0 net_capital_gain;
             ca_wage_tax = (4 / 100) * w2_income;
             base_tax = ca_wage_tax + ca_gains_tax;
             state_surcharge = (if surcharge fed > 0 then base_tax * (5 / 100) else 0)
         in (base_tax + state_surcharge, state_surcharge))
      else if state = ''Texas'' then
        (let state_tax = calculate_bracket_tax (taxable fed) tx_brackets
         in (if fed_deduction_amount > 15000 then state_tax * (99 / 100) else state_tax, 0))
      else (0, 0))"

section \<open>Capital gains, FIFO (event-loop variant)\<close>

text \<open>
  A row of \<^verbatim>\<open>asset_transactions\<close> as \<^verbatim>\<open>process_capital_gains\<close> selects it. The list the
  function works on is the query's result, ordered by date and then by transaction id;
  that ordering is the store's and is taken as given.
\<close>

record txn =
  transaction_id :: int
  transaction_type :: string
  asset_id :: string
  quantity :: decimal
  unit_price :: decimal
  remaining_quantity :: "decimal option"

text \<open>An open lot: the dictionary \<^verbatim>\<open>{'id', 'price', 'remaining'}\<close> appended for a BUY.\<close>

record lot =
  lot_id :: int
  price :: decimal
  remaining :: decimal

text \<open>A row inserted into \<^verbatim>\<open>realized_gains\<close>, one per match.\<close>

record gain_record =
  sell_transaction_id :: int
  buy_transaction_id :: int
  matched_quantity :: decimal
  gain_amount :: decimal

text \<open>
  What the function changes: the dictionary \<^verbatim>\<open>portfolio\<close> from asset to its list of lots,
  the running total, the rows inserted into \<^verbatim>\<open>realized_gains\<close>, and the warnings logged.
\<close>

record cg_state =
  portfolio :: "string \<rightharpoonup> lot list"
  realized_gains_total :: decimal
  realized_gains :: "gain_record list"
  warnings :: "string list"

definition valid_buys :: "lot list \<Rightarrow> lot list" where
  "valid_buys buys = filter (\<lambda>b. remaining b > 0) buys"

text \<open>
  \<^verbatim>\<open>earliest_buy['remaining'] -= match_qty\<close> changes the dictionary that is the first
  element of \<^verbatim>\<open>valid_buys\<close>, which is the first lot of the asset's list with a positive
  remainder; every lot is a dictionary of its own, so no other lot changes.
\<close>

fun decrement_earliest :: "decimal \<Rightarrow> lot list \<Rightarrow> lot list" where
  "decrement_earliest match_qty [] = []"
| "decrement_earliest match_qty (b # buys) =
     (if remaining b > 0 then b\<lparr>remaining := remaining b - match_qty\<rparr> # buys
      else b # decrement_earliest match_qty buys)"

definition overselling :: "string \<Rightarrow> string \<Rightarrow> string" where
  "overselling asset taxpayer_id = ''Overselling asset '' @ asset @ '' for '' @ taxpayer_id"

text \<open>
  The loop \<^verbatim>\<open>while shares_to_sell > 0\<close> of a SELL. Its state is the asset's list of lots,
  the shares still to sell, the running total, the rows inserted and the warnings logged.
\<close>

function sell_loop ::
  "string \<Rightarrow> string \<Rightarrow> int \<Rightarrow> decimal \<Rightarrow>
   lot list \<times> decimal \<times> decimal \<times> gain_record list \<times> string list \<Rightarrow>
   lot list \<times> decimal \<times> decimal \<times> gain_record list \<times> string list" where
  "sell_loop taxpayer_id asset t_id sell_price (buys, shares_to_sell, gains, rows, logged) =
     (if shares_to_sell > 0 then
        (case valid_buys buys of
           [] \<Rightarrow> (buys, shares_to_sell, gains, rows, logged @ [overselling asset taxpayer_id])
         | earliest_buy # _ \<Rightarrow>
             (let match_qty = min shares_to_sell (remaining earliest_buy);
                  gain = match_qty * (sell_price - price earliest_buy)
              in sell_loop taxpayer_id asset t_id sell_price
                   (decrement_earliest match_qty buys, shares_to_sell - match_qty, gains + gain,
                    rows @ [\<lparr>sell_transaction_id = t_id, buy_transaction_id = lot_id earliest_buy,
                             matched_quantity = match_qty, gain_amount = gain\<rparr>],
                    logged)))
      else (buys, shares_to_sell, gains, rows, logged))"
  by pat_completeness auto

lemma valid_buys_decrement:
  "valid_buys buys = b # rest \<Longrightarrow>
   valid_buys (decrement_earliest m buys) =
     (if remaining b - m > 0 then b\<lparr>remaining := remaining b - m\<rparr> # rest else rest)"
  by (induction buys) (auto simp: valid_buys_def split: if_splits)

text \<open>
  The loop ends: a match either uses up the shares to sell or closes the earliest open lot.
\<close>

termination sell_loop
  apply (relation "measure (\<lambda>(tp, a, t, sp, buys, shares, g, r, l).
           2 * length (valid_buys buys) + (if shares > 0 then 1 else 0))")
   apply simp
  apply (auto simp: valid_buys_decrement min_def)
  done

declare sell_loop.simps [simp del]

text \<open>
  The body of \<^verbatim>\<open>for txn in transactions\<close>. An asset not yet in \<^verbatim>\<open>portfolio\<close> gets the
  empty list first; a BUY appends a lot holding the full quantity; a SELL runs the loop on
  the list of its own asset; any other type changes nothing else. The row's
  \<^verbatim>\<open>remaining_quantity\<close> is read and never used.
\<close>

definition process_txn :: "string \<Rightarrow> cg_state \<Rightarrow> txn \<Rightarrow> cg_state" where
  "process_txn taxpayer_id st t =
     (let asset = asset_id t;
          pf = (case portfolio st asset of
                  None \<Rightarrow> (portfolio st)(asset \<mapsto> [])
                | Some _ \<Rightarrow> portfolio st);
          buys = (case pf asset of None \<Rightarrow> [] | Some bs \<Rightarrow> bs)
      in if transaction_type t = ''BUY'' then
           st\<lparr>portfolio :=
                pf(asset \<mapsto> buys @ [\<lparr>lot_id = transaction_id t, price = unit_price t,
                                       remaining = quantity t\<rparr>])\<rparr>
         else if transaction_type t = ''SELL'' then
           (case sell_loop taxpayer_id asset (transaction_id t) (unit_price t)
                   (buys, quantity t, realized_gains_total st, realized_gains st, warnings st) of
              (buys', shares_left, gains, rows, logged) \<Rightarrow>
                \<lparr>portfolio = pf(asset \<mapsto> buys'), realized_gains_total = gains,
                 realized_gains = rows, warnings = logged\<rparr>)
         else st\<lparr>portfolio := pf\<rparr>)"

definition cg_init :: cg_state where
  "cg_init = \<lparr>portfolio = Map.empty, realized_gains_total = 0, realized_gains = [],
              warnings = []\<rparr>"

definition run_capital_gains :: "string \<Rightarrow> txn list \<Rightarrow> cg_state" where
  "run_capital_gains taxpayer_id transactions =
     foldl (process_txn taxpayer_id) cg_init transactions"

definition process_capital_gains :: "string \<Rightarrow> txn list \<Rightarrow> decimal" where
  "process_capital_gains taxpayer_id transactions =
     realized_gains_total (run_capital_gains taxpayer_id transactions)"

section \<open>Income smoothing (event-loop variant)\<close>



section \<open>One household (event-loop variant)\<close>

datatype processing_status = PENDING | COMPLETED | ERROR

record tax_computation =
  federal_gross_income :: decimal
  federal_taxable_income :: decimal
  federal_deduction_type :: string
  federal_surcharge :: decimal
  total_federal_tax :: int
  state_surcharge :: decimal
  total_state_tax :: int

text \<open>
  Steps 1 to 3 of \<^verbatim>\<open>process_taxpayer\<close>: the federal result, and the raw state tax with the
  state surcharge. The deduction handed to the state step is recovered as gross income minus
  taxable income.
\<close>

definition taxpayer_taxes ::
  "txn list \<Rightarrow> decimal list \<Rightarrow> string \<Rightarrow> string \<Rightarrow> decimal \<Rightarrow> decimal \<Rightarrow> int \<Rightarrow>
   fed_data \<times> decimal \<times> decimal" where
  "taxpayer_taxes transactions donations taxpayer_id state w2 ewma num_children =
     (let net_capital_gain = process_capital_gains taxpayer_id transactions;
          fed_res = calculate_federal_tax donations w2 net_capital_gain ewma num_children;
          deduction_amt = gross fed_res - taxable fed_res
      in (fed_res, calculate_state_tax state w2 net_capital_gain fed_res deduction_amt))"

text \<open>
  \<^verbatim>\<open>process_taxpayer\<close>: step 4 rounds the two totals, writes the row of
  \<^verbatim>\<open>tax_computations\<close> and sets the status. The handler that sets \<^verbatim>\<open>ERROR\<close> runs when a
  statement of the body raises; with a numeric income, an integer number of children and
  numeric rows none does, so the result is always the completed row.
\<close>

definition process_taxpayer ::
  "txn list \<Rightarrow> decimal list \<Rightarrow> string \<Rightarrow> string \<Rightarrow> decimal \<Rightarrow> decimal \<Rightarrow> int \<Rightarrow>
   processing_status \<times> tax_computation option" where
  "process_taxpayer transactions donations taxpayer_id state w2 ewma num_children =
     (case taxpayer_taxes transactions donations taxpayer_id state w2 ewma num_children of
        (fed_res, state_tax_raw, st_surcharge) \<Rightarrow>
          (COMPLETED,
           Some \<lparr>federal_gross_income = gross fed_res,
                 federal_taxable_income = taxable fed_res,
                 federal_deduction_type = deduction_type fed_res,
                 federal_surcharge = surcharge fed_res,
                 total_federal_tax = round_dollar (total fed_res),
                 state_surcharge = st_surcharge,
                 total_state_tax = round_dollar state_tax_raw\<rparr>))"

section \<open>Capital gains (sequential variant)\<close>

text \<open>
  A row of \<^verbatim>\<open>asset_purchases\<close> or \<^verbatim>\<open>asset_sales\<close> of single_thread/database.py. The two
  lists \<^verbatim>\<open>calculate_capital_gains\<close> works on are the query results, each ordered by date
  and id. A purchase gets the extra key \<^verbatim>\<open>'remaining'\<close>, set to its quantity.
\<close>

record asset_row =
  row_id :: int
  row_asset_id :: string
  row_date :: string
  row_quantity :: rat
  row_unit_price :: rat

record purchase = asset_row +
  remaining_st :: rat

definition with_remaining :: "asset_row \<Rightarrow> purchase" where
  "with_remaining r =
     \<lparr>row_id = row_id r, row_asset_id = row_asset_id r, row_date = row_date r,
      row_quantity = row_quantity r, row_unit_price = row_unit_price r,
      remaining_st = row_quantity r\<rparr>"

text \<open>
  The inner loop \<^verbatim>\<open>for p in purchases\<close> of one sale, carrying \<^verbatim>\<open>qty_to_sell\<close> and
  \<^verbatim>\<open>cost_basis_for_sale\<close>; it walks every purchase of the household, whatever its asset
  and date, and leaves when nothing remains to sell.
\<close>

fun match_purchases :: "purchase list \<Rightarrow> rat \<Rightarrow> rat \<Rightarrow> purchase list \<times> rat \<times> rat" where
  "match_purchases [] qty_to_sell cost_basis_for_sale = ([], qty_to_sell, cost_basis_for_sale)"
| "match_purchases (p # ps) qty_to_sell cost_basis_for_sale =
     (if qty_to_sell \<le> 0 then (p # ps, qty_to_sell, cost_basis_for_sale)
      else if remaining_st p > 0 then
        (let taken = min qty_to_sell (remaining_st p)
         in case match_purchases ps (qty_to_sell - taken)
                   (cost_basis_for_sale + taken * row_unit_price p) of
              (ps', q, c) \<Rightarrow> (p\<lparr>remaining_st := remaining_st p - taken\<rparr> # ps', q, c))
      else
        (case match_purchases ps qty_to_sell cost_basis_for_sale of
           (ps', q, c) \<Rightarrow> (p # ps', q, c)))"

text \<open>
  The body of \<^verbatim>\<open>for sale in sales\<close>: the state is the purchases with their remainders and
  the three running sums \<^verbatim>\<open>realized_gains\<close>, \<^verbatim>\<open>total_sales_proceeds\<close>,
  \<^verbatim>\<open>total_cost_basis\<close>. The proceeds are those of the whole sale.
\<close>

definition process_sale_st ::
  "purchase list \<times> rat \<times> rat \<times> rat \<Rightarrow> asset_row \<Rightarrow> purchase list \<times> rat \<times> rat \<times> rat" where
  "process_sale_st s sale =
     (case s of (purchases, gains, proceeds, basis) \<Rightarrow>
        (case match_purchases purchases (row_quantity sale) 0 of
           (purchases', qty_left, cost_basis_for_sale) \<Rightarrow>
             (let sale_proceeds = row_quantity sale * row_unit_price sale;
                  gain = sale_proceeds - cost_basis_for_sale
              in (purchases', gains + gain, proceeds + sale_proceeds,
                  basis + cost_basis_for_sale))))"

text \<open>The row written to \<^verbatim>\<open>capital_gains_result\<close> for one household.\<close>

definition calculate_capital_gains_st :: "asset_row list \<Rightarrow> asset_row list \<Rightarrow> rat \<times> rat \<times> rat" where
  "calculate_capital_gains_st purchases sales =
     snd (foldl process_sale_st (map with_remaining purchases, 0, 0, 0) sales)"

section \<open>Income smoothing (sequential variant)\<close>



section \<open>Federal and state tax (sequential variant)\<close>

text \<open>The columns of \<^verbatim>\<open>federal_calculations\<close> that \<^verbatim>\<open>calculate_federal_tax\<close> sets.\<close>

record federal_calculation =
  gross_income :: rat
  surcharge_amount :: rat
  standard_deduction_val :: rat
  itemized_deduction_val :: rat
  deduction_method :: string
  taxable_income :: rat
  bracket_tax :: rat
  final_federal_tax :: rat

text \<open>Step 5 of \<^verbatim>\<open>calculate_federal_tax\<close>: the four chunks, written out in the source.\<close>

definition federal_chunks_st :: "rat \<Rightarrow> rat" where
  "federal_chunks_st income =
     (let chunk1 = min income 100000;
          tax1 = chunk1 * (5 / 100);
          rem1 = income - chunk1;
          (tax2, rem2) =
             (if rem1 > 0 then (tax1 + min rem1 100000 * (10 / 100), rem1 - min rem1 100000)
              else (tax1, rem1));
          (tax3, rem3) =
             (if rem2 > 0 then (tax2 + min rem2 100000 * (15 / 100), rem2 - min rem2 100000)
              else (tax2, rem2))
      in if rem3 > 0 then tax3 + rem3 * (20 / 100) else tax3)"

text \<open>
  The body of the loop of \<^verbatim>\<open>calculate_federal_tax\<close> for one household. The capital gain
  and the smoothed income come from left joins and may be missing; the donations are summed
  by the store, and a missing or zero sum counts as zero.
\<close>

definition calculate_federal_tax_st ::
  "rat \<Rightarrow> int \<Rightarrow> rat option \<Rightarrow> rat option \<Rightarrow> rat list \<Rightarrow> federal_calculation" where
  "calculate_federal_tax_st w2 children cap_gain ewma_opt donations =
     (let net_cap_gain = (case cap_gain of None \<Rightarrow> 0 | Some g \<Rightarrow> g);
          gross = w2 + net_cap_gain;
          ewma = (case ewma_opt of None \<Rightarrow> 0 | Some e \<Rightarrow> e);
          surch = (if ewma > 1000000 then (2 / 100) * gross else 0);
          standard_ded = 10000;
          charitable_ded =
             (if donations = [] \<or> sum_list donations = 0 then 0 else sum_list donations);
          taxable_base_for_child = gross - charitable_ded;
          child_rate = of_int (min children 10) * (1 / 100);
          child_ded_val =
             (if taxable_base_for_child > 0 then child_rate * taxable_base_for_child else 0);
          itemized_total = charitable_ded + child_ded_val;
          (deduction_val, method) =
             (if itemized_total > standard_ded then (itemized_total, ''Itemized'')
              else (standard_ded, ''Standard''));
          taxable = max 0 (gross - deduction_val);
          brackets = federal_chunks_st taxable
      in \<lparr>gross_income = gross, surcharge_amount = surch,
          standard_deduction_val = standard_ded, itemized_deduction_val = itemized_total,
          deduction_method = method, taxable_income = taxable, bracket_tax = brackets,
          final_federal_tax = brackets + surch\<rparr>)"

text \<open>The Texas chunks of \<^verbatim>\<open>calculate_state_tax\<close>, before the discount.\<close>

definition texas_chunks_st :: "rat \<Rightarrow> rat" where
  "texas_chunks_st income =
     (let chunk1 = min income 90000;
          tax1 = chunk1 * (3 / 100);
          rem1 = income - chunk1;
          (tax2, rem2) =
             (if rem1 > 0 then (tax1 + min rem1 110000 * (5 / 100), rem1 - min rem1 110000)
              else (tax1, rem1))
      in if rem2 > 0 then tax2 + rem2 * (7 / 100) else tax2)"

text \<open>
  The state part of the loop body of \<^verbatim>\<open>calculate_state_tax\<close>: \<^verbatim>\<open>final_state_tax\<close> starts at
  zero and is set in the California and in the Texas branch only.
\<close>

definition final_state_tax_st :: "string \<Rightarrow> rat \<Rightarrow> rat option \<Rightarrow> federal_calculation \<Rightarrow> rat" where
  "final_state_tax_st state w2 cap_gain fc =
     (if state = ''California'' then
        (let net_gain = (case cap_gain of None \<Rightarrow> 0 | Some g \<Rightarrow> g);
             ca_tax_base = (4 / 100) * w2 + (6 / 100) * max 0 net_gain
         in if surcharge_amount fc > 0 then ca_tax_base * (105 / 100) else ca_tax_base)
      else if state = ''Texas'' then
        (let tx_tax = texas_chunks_st (taxable_income fc);
             deduction_used =
               (if deduction_method fc = ''Itemized'' then itemized_deduction_val fc
                else standard_deduction_val fc)
         in if deduction_used > 15000 then tx_tax * (99 / 100) else tx_tax)
      else 0)"

text \<open>
  The row of \<^verbatim>\<open>final_liability\<close>, written for every household of the join, whatever its
  state: \<^verbatim>\<open>(int(round(final_federal_tax)), int(round(final_state_tax)))\<close>.
\<close>

definition calculate_state_tax_st :: "string \<Rightarrow> rat \<Rightarrow> rat option \<Rightarrow> federal_calculation \<Rightarrow> int \<times> int" where
  "calculate_state_tax_st state w2 cap_gain fc =
     (py_round (final_federal_tax fc), py_round (final_state_tax_st state w2 cap_gain fc))"

section \<open>The specification's formulas\<close>

text \<open>
  The definitions of this section follow the words of the specification, not the code; the
  theorems below compare the code with them.

  The part of an income that lies in the band from \<open>lo\<close> to \<open>hi\<close>.
\<close>

definition portion :: "rat \<Rightarrow> rat \<Rightarrow> rat \<Rightarrow> rat" where
  "portion lo hi income = max 0 (min income hi - lo)"

text \<open>Federal brackets, marginal: each band taxes the part of the income inside it.\<close>

definition federal_marginal :: "rat \<Rightarrow> rat" where
  "federal_marginal income =
     (5 / 100) * portion 0 100000 income + (10 / 100) * portion 100000 200000 income +
     (15 / 100) * portion 200000 300000 income + (20 / 100) * max 0 (income - 300000)"


text \<open>Steps 1 to 5 of the federal resolver: the itemized total.\<close>

definition itemized_spec :: "decimal list \<Rightarrow> decimal \<Rightarrow> decimal \<Rightarrow> int \<Rightarrow> decimal" where
  "itemized_spec donations w2 gain children =
     (let gross_income = w2 + gain;
          charitable = sum_list donations;
          child_rate = min (of_int children * (1 / 100)) (10 / 100);
          child_base = max 0 (gross_income - charitable);
          child_deduction = child_base * child_rate
      in charitable + child_deduction)"

text \<open>Step 6: the deduction that is used.\<close>

definition deduction_spec :: "decimal list \<Rightarrow> decimal \<Rightarrow> decimal \<Rightarrow> int \<Rightarrow> decimal" where
  "deduction_spec donations w2 gain children =
     (if itemized_spec donations w2 gain children > 10000
      then itemized_spec donations w2 gain children else 10000)"



section \<open>Notions for stating the matching\<close>

text \<open>
  Notions for stating what a sale does. The lots of an asset in the portfolio; the quantity
  available, the sum over the open lots; a lot after it was used up; the match that uses a
  lot up. The same for the purchases of the sequential variant.
\<close>

definition lots_of :: "(string \<rightharpoonup> lot list) \<Rightarrow> string \<Rightarrow> lot list" where
  "lots_of pf asset = (case pf asset of None \<Rightarrow> [] | Some bs \<Rightarrow> bs)"


definition close_lot :: "lot \<Rightarrow> lot" where
  "close_lot b = (if remaining b > 0 then b\<lparr>remaining := 0\<rparr> else b)"





text \<open>
  The specification's matching of one sale against the lots of its asset, by recursion
  along the list: while shares remain, every open lot in turn gives
  \<open>min(remaining, lot.remaining)\<close>, both quantities are decremented, and a record with the
  gain \<open>matched \<times> (sell price - lot price)\<close> is emitted. It returns the lots, the shares
  left and the records.
\<close>

fun fifo :: "int \<Rightarrow> decimal \<Rightarrow> decimal \<Rightarrow> lot list \<Rightarrow> lot list \<times> decimal \<times> gain_record list" where
  "fifo t_id sp sh [] = ([], sh, [])"
| "fifo t_id sp sh (b # bs) =
     (if sh > 0 \<and> remaining b > 0 then
        (let m = min sh (remaining b)
         in case fifo t_id sp (sh - m) bs of
              (bs', sh', rows) \<Rightarrow>
                (b\<lparr>remaining := remaining b - m\<rparr> # bs', sh',
                 \<lparr>sell_transaction_id = t_id, buy_transaction_id = lot_id b,
                  matched_quantity = m, gain_amount = m * (sp - price b)\<rparr> # rows))
      else (case fifo t_id sp sh bs of (bs', sh', rows) \<Rightarrow> (b # bs', sh', rows)))"

text \<open>
  The state of the loop after such a matching: the total grows by the gains of the records,
  and a warning is logged when shares are left.
\<close>

definition fifo_result ::
  "string \<Rightarrow> string \<Rightarrow> int \<Rightarrow> decimal \<Rightarrow>
   lot list \<times> decimal \<times> decimal \<times> gain_record list \<times> string list \<Rightarrow>
   lot list \<times> decimal \<times> decimal \<times> gain_record list \<times> string list" where
  "fifo_result tp a t_id sp s =
     (case s of (buys, sh, g, rows, lg) \<Rightarrow>
        (case fifo t_id sp sh buys of
           (bs', sh', rs) \<Rightarrow>
             (bs', sh', g + sum_list (map gain_amount rs), rows @ rs,
              if sh' > 0 then lg @ [overselling a tp] else lg)))"

section \<open>Brackets, deduction and surcharge: code against specification\<close>

lemma floor_rat_numeral: "\<lfloor>numeral a / numeral b :: rat\<rfloor> = numeral a div numeral b"
  by (metis floor_divide_of_int_eq of_int_numeral)

lemma fed_brackets_marginal:
  "calculate_bracket_tax income fed_brackets = federal_marginal income"
  by (simp add: calculate_bracket_tax_def fed_brackets_def federal_marginal_def portion_def
      min_def max_def)


lemma federal_chunks_marginal:
  "0 \<le> income \<Longrightarrow> federal_chunks_st income = federal_marginal income"
  by (simp add: federal_chunks_st_def federal_marginal_def portion_def Let_def
      min_def max_def)


lemma child_rate_st:
  "of_int (min n 10) * (1 / 100) = min (of_int n * (1 / 100)) (10 / 100 :: rat)"
  by (simp add: min_def)

lemma charitable_st:
  "(if ds = [] \<or> sum_list ds = 0 then 0 else sum_list ds) = (sum_list ds :: rat)"
  by auto

lemma fed_fields:
  "gross (calculate_federal_tax ds w2 g e n) = w2 + g"
  "taxable (calculate_federal_tax ds w2 g e n) = max 0 (w2 + g - deduction_spec ds w2 g n)"
  "deduction_type (calculate_federal_tax ds w2 g e n) =
     (if itemized_spec ds w2 g n > 10000 then ''ITEMIZED'' else ''STANDARD'')"
  "surcharge (calculate_federal_tax ds w2 g e n) =
     (if e > 1000000 then (w2 + g) * (2 / 100) else 0)"
  "total (calculate_federal_tax ds w2 g e n) =
     calculate_bracket_tax (taxable (calculate_federal_tax ds w2 g e n)) fed_brackets +
     surcharge (calculate_federal_tax ds w2 g e n)"
  by (simp_all add: calculate_federal_tax_def deduction_spec_def itemized_spec_def Let_def)

lemma fed_fields_st:
  "gross_income (calculate_federal_tax_st w2 n (Some g) eo ds) = w2 + g"
  "taxable_income (calculate_federal_tax_st w2 n (Some g) eo ds) =
     max 0 (w2 + g - deduction_spec ds w2 g n)"
  "deduction_method (calculate_federal_tax_st w2 n (Some g) eo ds) =
     (if itemized_spec ds w2 g n > 10000 then ''Itemized'' else ''Standard'')"
  "itemized_deduction_val (calculate_federal_tax_st w2 n (Some g) eo ds) = itemized_spec ds w2 g n"
  "standard_deduction_val (calculate_federal_tax_st w2 n (Some g) eo ds) = 10000"
  "surcharge_amount (calculate_federal_tax_st w2 n (Some g) (Some e) ds) =
     (if e > 1000000 then (2 / 100) * (w2 + g) else 0)"
  "surcharge_amount (calculate_federal_tax_st w2 n (Some g) None ds) = 0"
  "final_federal_tax (calculate_federal_tax_st w2 n (Some g) eo ds) =
     bracket_tax (calculate_federal_tax_st w2 n (Some g) eo ds) +
     surcharge_amount (calculate_federal_tax_st w2 n (Some g) eo ds)"
  "bracket_tax (calculate_federal_tax_st w2 n (Some g) eo ds) =
     federal_chunks_st (taxable_income (calculate_federal_tax_st w2 n (Some g) eo ds))"
  unfolding calculate_federal_tax_st_def deduction_spec_def itemized_spec_def
     charitable_st child_rate_st
  by (simp_all add: Let_def max_def mult.commute)

section \<open>Claims on the federal and the state resolver\<close>

text \<open>
  C6. For every taxable income the federal bracket tax is marginal over the bands
  [0, 100000) at 5%, [100000, 200000) at 10%, [200000, 300000) at 15% and [300000, \<open>\<infinity>\<close>) at
  20%, each band taxing only the part of the income inside it. The bracket function of the
  event-loop variant computes this for every income; the bracket tax inside its federal
  result (the total less the surcharge) and the bracket tax of the sequential variant are
  this function of the taxable income; and a taxable income of 250000 gives exactly 22500.
\<close>

theorem federal_bracket_tax_marginal:
  "calculate_bracket_tax income fed_brackets = federal_marginal income \<and>
   total (calculate_federal_tax ds w2 g e n) - surcharge (calculate_federal_tax ds w2 g e n) =
     federal_marginal (taxable (calculate_federal_tax ds w2 g e n)) \<and>
   bracket_tax (calculate_federal_tax_st w2 n (Some g) eo ds) =
     federal_marginal (taxable_income (calculate_federal_tax_st w2 n (Some g) eo ds)) \<and>
   calculate_bracket_tax 250000 fed_brackets = 22500 \<and>
   federal_chunks_st 250000 = 22500"
proof -
  have a: "calculate_bracket_tax income fed_brackets = federal_marginal income"
    by (rule fed_brackets_marginal)
  have b: "total (calculate_federal_tax ds w2 g e n) - surcharge (calculate_federal_tax ds w2 g e n) =
     federal_marginal (taxable (calculate_federal_tax ds w2 g e n))"
    by (simp add: fed_fields(5) fed_brackets_marginal)
  have "0 \<le> taxable_income (calculate_federal_tax_st w2 n (Some g) eo ds)"
    by (simp add: fed_fields_st(2))
  then have c: "bracket_tax (calculate_federal_tax_st w2 n (Some g) eo ds) =
     federal_marginal (taxable_income (calculate_federal_tax_st w2 n (Some g) eo ds))"
    by (simp add: fed_fields_st(9) federal_chunks_marginal)
  have d: "calculate_bracket_tax 250000 fed_brackets = 22500"
    by (simp add: calculate_bracket_tax_def fed_brackets_def)
  have e: "federal_chunks_st 250000 = 22500"
    by (simp add: federal_chunks_st_def)
  from a b c d e show ?thesis by blast
qed


text \<open>
  C9. The federal surcharge is 2% of the gross income exactly when the smoothed income is
  strictly greater than 1000000, and zero otherwise: at exactly 1000000 there is none, at
  1000001 there is one. It is computed on the gross income and added to the bracket tax of
  the taxable income, outside the brackets.
\<close>

theorem surcharge_gating:
  "surcharge (calculate_federal_tax ds w2 g e n) =
     (if e > 1000000 then (w2 + g) * (2 / 100) else 0) \<and>
   total (calculate_federal_tax ds w2 g e n) =
     federal_marginal (taxable (calculate_federal_tax ds w2 g e n)) +
     surcharge (calculate_federal_tax ds w2 g e n) \<and>
   surcharge (calculate_federal_tax ds w2 g 1000000 n) = 0 \<and>
   surcharge (calculate_federal_tax ds w2 g 1000001 n) = (w2 + g) * (2 / 100) \<and>
   surcharge_amount (calculate_federal_tax_st w2 n (Some g) (Some e) ds) =
     (if e > 1000000 then (2 / 100) * (w2 + g) else 0) \<and>
   final_federal_tax (calculate_federal_tax_st w2 n (Some g) (Some e) ds) =
     federal_marginal (taxable_income (calculate_federal_tax_st w2 n (Some g) (Some e) ds)) +
     surcharge_amount (calculate_federal_tax_st w2 n (Some g) (Some e) ds)"
proof -
  have "0 \<le> taxable_income (calculate_federal_tax_st w2 n (Some g) (Some e) ds)"
    by (simp add: fed_fields_st(2))
  then have "bracket_tax (calculate_federal_tax_st w2 n (Some g) (Some e) ds) =
     federal_marginal (taxable_income (calculate_federal_tax_st w2 n (Some g) (Some e) ds))"
    by (simp add: fed_fields_st(9) federal_chunks_marginal)
  then show ?thesis
    by (simp add: fed_fields(4,5) fed_fields_st(6,8) fed_brackets_marginal)
qed



lemma no_transactions: "process_capital_gains tp [] = 0"
  by (simp add: process_capital_gains_def run_capital_gains_def cg_init_def)

lemma process_taxpayer_fields:
  "fst (process_taxpayer txns ds tp st w2 e n) = COMPLETED"
  "map_option total_state_tax (snd (process_taxpayer txns ds tp st w2 e n)) =
     Some (round_dollar (fst (snd (taxpayer_taxes txns ds tp st w2 e n))))"
  "map_option state_surcharge (snd (process_taxpayer txns ds tp st w2 e n)) =
     Some (snd (snd (taxpayer_taxes txns ds tp st w2 e n)))"
  "map_option total_federal_tax (snd (process_taxpayer txns ds tp st w2 e n)) =
     Some (round_dollar (total (fst (taxpayer_taxes txns ds tp st w2 e n))))"
  by (simp_all add: process_taxpayer_def split: prod.splits)


text \<open>
  C10. For a California household the state tax is determined by the wage income, the net
  capital gain and whether the federal surcharge is positive: two federal results that
  agree on the last give the same state tax and state surcharge, and two households that
  agree on the three give the same raw and the same rounded state tax, whatever their
  donations, children, deduction method and taxable income.
\<close>

theorem california_state_tax_inputs:
  assumes "(surcharge fd1 > 0) = (surcharge fd2 > 0)"
    and "process_capital_gains tp1 txns1 = process_capital_gains tp2 txns2"
    and "(surcharge (fst (taxpayer_taxes txns1 ds1 tp1 ''California'' w2 e1 n1)) > 0) =
         (surcharge (fst (taxpayer_taxes txns2 ds2 tp2 ''California'' w2 e2 n2)) > 0)"
    and "(surcharge_amount fc1 > 0) = (surcharge_amount fc2 > 0)"
  shows "calculate_state_tax ''California'' w2 g fd1 d1 =
           calculate_state_tax ''California'' w2 g fd2 d2 \<and>
         snd (taxpayer_taxes txns1 ds1 tp1 ''California'' w2 e1 n1) =
           snd (taxpayer_taxes txns2 ds2 tp2 ''California'' w2 e2 n2) \<and>
         map_option total_state_tax (snd (process_taxpayer txns1 ds1 tp1 ''California'' w2 e1 n1)) =
           map_option total_state_tax (snd (process_taxpayer txns2 ds2 tp2 ''California'' w2 e2 n2)) \<and>
         final_state_tax_st ''California'' w2 cg fc1 = final_state_tax_st ''California'' w2 cg fc2 \<and>
         snd (calculate_state_tax_st ''California'' w2 cg fc1) =
           snd (calculate_state_tax_st ''California'' w2 cg fc2)"
proof -
  have a: "calculate_state_tax ''California'' w2 g fd1 d1 =
           calculate_state_tax ''California'' w2 g fd2 d2"
    using assms(1) by (simp add: calculate_state_tax_def Let_def)
  have b: "snd (taxpayer_taxes txns1 ds1 tp1 ''California'' w2 e1 n1) =
           snd (taxpayer_taxes txns2 ds2 tp2 ''California'' w2 e2 n2)"
    using assms(2,3) by (simp add: taxpayer_taxes_def calculate_state_tax_def Let_def)
  have c: "map_option total_state_tax (snd (process_taxpayer txns1 ds1 tp1 ''California'' w2 e1 n1)) =
           map_option total_state_tax (snd (process_taxpayer txns2 ds2 tp2 ''California'' w2 e2 n2))"
    using b by (simp add: process_taxpayer_fields(2))
  have d: "final_state_tax_st ''California'' w2 cg fc1 = final_state_tax_st ''California'' w2 cg fc2"
    using assms(4) by (simp add: final_state_tax_st_def Let_def)
  then have e: "snd (calculate_state_tax_st ''California'' w2 cg fc1) =
           snd (calculate_state_tax_st ''California'' w2 cg fc2)"
    by (simp add: calculate_state_tax_st_def)
  from a b c d e show ?thesis by blast
qed

lemma ca_eval1: "taxpayer_taxes [] [] ''hh-1'' ''California'' 80000 0 0
   = (calculate_federal_tax [] 80000 0 0 0, 3200, 0)"
  by (simp add: taxpayer_taxes_def no_transactions calculate_state_tax_def fed_fields(4) Let_def)

lemma ca_eval2: "taxpayer_taxes [] [30000, 500] ''hh-2'' ''California'' 80000 200000 4
   = (calculate_federal_tax [30000, 500] 80000 0 200000 4, 3200, 0)"
  by (simp add: taxpayer_taxes_def no_transactions calculate_state_tax_def fed_fields(4) Let_def)

text \<open>
  Two California households with the same wage income, no transactions and no surcharge:
  one with no donation and no child (standard deduction, taxable income 70000), one with
  donations of 30500 and four children (itemized deduction, taxable income 47520). Both owe
  3200.
\<close>

theorem california_state_tax_inputs_witness:
  "deduction_type (calculate_federal_tax [] 80000 0 0 0) = ''STANDARD'' \<and>
   deduction_type (calculate_federal_tax [30000, 500] 80000 0 200000 4) = ''ITEMIZED'' \<and>
   taxable (calculate_federal_tax [] 80000 0 0 0) = 70000 \<and>
   taxable (calculate_federal_tax [30000, 500] 80000 0 200000 4) = 47520 \<and>
   map_option total_state_tax (snd (process_taxpayer [] [] ''hh-1'' ''California'' 80000 0 0)) = Some 3200 \<and>
   map_option total_state_tax
     (snd (process_taxpayer [] [30000, 500] ''hh-2'' ''California'' 80000 200000 4)) = Some 3200"
proof -
  let ?f1 = "calculate_federal_tax [] 80000 0 0 0"
  let ?f2 = "calculate_federal_tax [30000, 500] 80000 0 200000 4"
  let ?c1 = "calculate_federal_tax_st 80000 0 (Some 0) (Some 0) []"
  let ?c2 = "calculate_federal_tax_st 80000 4 (Some 0) (Some 200000) [30000, 500]"
  have h1: "(surcharge ?f1 > 0) = (surcharge ?f2 > 0)" by (simp add: fed_fields(4))
  have h2: "process_capital_gains ''hh-1'' [] = process_capital_gains ''hh-2'' []"
    by (simp add: no_transactions)
  have h3: "(surcharge (fst (taxpayer_taxes [] [] ''hh-1'' ''California'' 80000 0 0)) > 0) =
     (surcharge (fst (taxpayer_taxes [] [30000, 500] ''hh-2'' ''California'' 80000 200000 4)) > 0)"
    by (simp add: ca_eval1 ca_eval2 fed_fields(4))
  have h4: "(surcharge_amount ?c1 > 0) = (surcharge_amount ?c2 > 0)"
    by (simp add: fed_fields_st(6))
  have i1: "itemized_spec [] 80000 0 0 = 0" by (simp add: itemized_spec_def)
  have i2: "itemized_spec [30000, 500] 80000 0 4 = 32480" by (simp add: itemized_spec_def)
  have r: "map_option total_state_tax (snd (process_taxpayer [] [] ''hh-1'' ''California'' 80000 0 0)) = Some 3200"
    by (simp add: process_taxpayer_fields(2) ca_eval1 round_dollar_def floor_rat_numeral)
  from california_state_tax_inputs[OF h1 h2 h3 h4]
  have "map_option total_state_tax (snd (process_taxpayer [] [] ''hh-1'' ''California'' 80000 0 0)) =
     map_option total_state_tax
       (snd (process_taxpayer [] [30000, 500] ''hh-2'' ''California'' 80000 200000 4))"
    by blast
  with r show ?thesis
    by (simp add: fed_fields(2,3) deduction_spec_def i1 i2)
qed

section \<open>Unknown jurisdictions\<close>

lemma floor_half: "\<lfloor>1 / 2 :: rat\<rfloor> = 0"
  by (simp add: floor_eq_iff)

lemma round_dollar_of_int: "round_dollar (of_int k) = k"
proof -
  have "\<lfloor>of_int k + 1 / 2 :: rat\<rfloor> = k" for k :: int
    by (simp add: floor_eq_iff)
  from this[of k] this[of "- k"] show ?thesis
    by (simp add: round_dollar_def)
qed

lemma round_dollar_0: "round_dollar 0 = 0"
  using round_dollar_of_int[of 0] by simp

lemma round_dollar_numeral: "round_dollar (numeral k) = numeral k"
  using round_dollar_of_int[of "numeral k"] by simp

lemma py_round_of_int: "py_round (of_int k) = k"
  by (simp add: py_round_def)

lemma py_round_0: "py_round 0 = 0"
  using py_round_of_int[of 0] by simp

lemma py_round_numeral: "py_round (numeral k) = numeral k"
  using py_round_of_int[of "numeral k"] by simp

text \<open>
  C3, as the code has it. For a household whose state is neither California nor Texas the
  state step returns a state tax and a state surcharge of zero; the event-loop variant
  completes the household (status \<open>COMPLETED\<close>) and writes its row with the rounded
  federal tax and a state tax of 0, and the sequential variant writes its row of final
  liabilities with a state tax of 0. No variant has a failure for an unknown state.
\<close>

theorem unknown_state_zero_tax:
  assumes "state \<noteq> ''California''" and "state \<noteq> ''Texas''"
  shows "calculate_state_tax state w2 g fd d = (0, 0) \<and>
         process_taxpayer txns ds tp state w2 e n =
           (let fed_res = calculate_federal_tax ds w2 (process_capital_gains tp txns) e n
            in (COMPLETED,
                Some \<lparr>federal_gross_income = gross fed_res,
                      federal_taxable_income = taxable fed_res,
                      federal_deduction_type = deduction_type fed_res,
                      federal_surcharge = surcharge fed_res,
                      total_federal_tax = round_dollar (total fed_res),
                      state_surcharge = 0,
                      total_state_tax = 0\<rparr>)) \<and>
         final_state_tax_st state w2 cg fc = 0 \<and>
         calculate_state_tax_st state w2 cg fc = (py_round (final_federal_tax fc), 0)"
  using assms
  by (simp add: calculate_state_tax_def process_taxpayer_def taxpayer_taxes_def Let_def
      final_state_tax_st_def calculate_state_tax_st_def round_dollar_0 py_round_0)

text \<open>A household in Oregon.\<close>

theorem unknown_state_zero_tax_witness:
  "''Oregon'' \<noteq> ''California'' \<and> ''Oregon'' \<noteq> ''Texas'' \<and>
   calculate_state_tax ''Oregon'' 120000 0 (calculate_federal_tax [] 120000 0 0 2) 10000 = (0, 0) \<and>
   final_state_tax_st ''Oregon'' 120000 (Some 0)
     (calculate_federal_tax_st 120000 2 (Some 0) (Some 0) []) = 0"
  using unknown_state_zero_tax[of "''Oregon''" 120000 0 "calculate_federal_tax [] 120000 0 0 2" 10000
      "[]" "[]" "''hh-7''" 0 2 "Some 0" "calculate_federal_tax_st 120000 2 (Some 0) (Some 0) []"]
  by simp

text \<open>
  C3 as stated fails: a household in Nevada with a wage income of 50000 is not set to
  \<open>ERROR\<close> and does get a row, with a federal tax of 2000 and a state tax of 0, in the
  event-loop and in the sequential variant.
\<close>

theorem unknown_state_counterexample:
  "fst (process_taxpayer [] [] ''hh-9'' ''Nevada'' 50000 0 0) = COMPLETED \<and>
   fst (process_taxpayer [] [] ''hh-9'' ''Nevada'' 50000 0 0) \<noteq> ERROR \<and>
   map_option total_state_tax (snd (process_taxpayer [] [] ''hh-9'' ''Nevada'' 50000 0 0)) = Some 0 \<and>
   map_option total_federal_tax (snd (process_taxpayer [] [] ''hh-9'' ''Nevada'' 50000 0 0)) = Some 2000 \<and>
   calculate_state_tax_st ''Nevada'' 50000 (Some 0)
     (calculate_federal_tax_st 50000 0 (Some 0) (Some 0) []) = (2000, 0)"
proof -
  have i: "itemized_spec [] 50000 0 0 = 0" by (simp add: itemized_spec_def)
  have t: "taxable (calculate_federal_tax [] 50000 0 0 0) = 40000"
    by (simp add: fed_fields(2) deduction_spec_def i)
  have tot: "total (calculate_federal_tax [] 50000 0 0 0) = 2000"
    by (simp add: fed_fields(4,5) t fed_brackets_marginal federal_marginal_def portion_def)
  have tt: "taxpayer_taxes [] [] ''hh-9'' ''Nevada'' 50000 0 0 =
      (calculate_federal_tax [] 50000 0 0 0, 0, 0)"
    by (simp add: taxpayer_taxes_def no_transactions calculate_state_tax_def Let_def)
  have ts: "taxable_income (calculate_federal_tax_st 50000 0 (Some 0) (Some 0) []) = 40000"
    by (simp add: fed_fields_st(2) deduction_spec_def i)
  have fs: "final_federal_tax (calculate_federal_tax_st 50000 0 (Some 0) (Some 0) []) = 2000"
    by (simp add: fed_fields_st(6,8,9) ts federal_chunks_marginal federal_marginal_def portion_def)
  have st: "calculate_state_tax_st ''Nevada'' 50000 (Some 0)
     (calculate_federal_tax_st 50000 0 (Some 0) (Some 0) []) = (2000, 0)"
    by (simp add: calculate_state_tax_st_def fs final_state_tax_st_def py_round_0 py_round_numeral)
  show ?thesis
    by (simp add: process_taxpayer_fields tt tot st round_dollar_0 round_dollar_numeral)
qed

section \<open>Income smoothing\<close>



section \<open>Rounding of the final liabilities\<close>

text \<open>
  \<^const>\<open>round_dollar\<close> rounds half up, away from zero, and to a nearest integer;
  \<^const>\<open>py_round\<close> sends a tie to the even neighbour.
\<close>

lemma round_dollar_half_up:
  "0 \<le> k \<Longrightarrow> round_dollar (of_int k + 1 / 2) = k + 1"
  "0 \<le> k \<Longrightarrow> round_dollar (- (of_int k + 1 / 2)) = - (k + 1)"
  by (simp_all add: round_dollar_def floor_eq_iff)

lemma round_dollar_nearest: "\<bar>of_int (round_dollar d) - d\<bar> \<le> 1 / 2"
proof -
  have f1: "of_int \<lfloor>x + 1 / 2\<rfloor> \<le> x + 1 / 2" for x :: rat
    by (rule of_int_floor_le)
  have f2: "x - 1 / 2 < of_int \<lfloor>x + 1 / 2\<rfloor>" for x :: rat
    using floor_correct[of "x + 1 / 2"] by linarith
  show ?thesis
  proof (cases "0 \<le> d")
    case True
    then have "of_int (round_dollar d) = (of_int \<lfloor>d + 1 / 2\<rfloor> :: rat)"
      by (simp add: round_dollar_def)
    with f1[of d] f2[of d] show ?thesis by linarith
  next
    case False
    then have "of_int (round_dollar d) = (- of_int \<lfloor>- d + 1 / 2\<rfloor> :: rat)"
      by (simp add: round_dollar_def)
    with f1[of "- d"] f2[of "- d"] show ?thesis by linarith
  qed
qed

lemma py_round_half: "py_round (of_int k + 1 / 2) = (if even k then k else k + 1)"
proof -
  have f: "\<lfloor>of_int k + 1 / 2 :: rat\<rfloor> = k" by (simp add: floor_eq_iff)
  show ?thesis by (simp add: py_round_def f Let_def)
qed

text \<open>
  C4 at a household with a wage income of 10050, no transactions, no donations, no
  children, in California: the taxable income is 50 and the federal total exactly 2.5. The
  sequential variant stores a federal liability of 2, the event-loop variant one of 3; the
  state liability is 402 in both.
\<close>

theorem half_dollar_rounding_st:
  "final_federal_tax (calculate_federal_tax_st 10050 0 (Some 0) (Some 0) []) = 5 / 2 \<and>
   calculate_state_tax_st ''California'' 10050 (Some 0)
     (calculate_federal_tax_st 10050 0 (Some 0) (Some 0) []) = (2, 402) \<and>
   total (calculate_federal_tax [] 10050 0 0 0) = 5 / 2 \<and>
   map_option total_federal_tax
     (snd (process_taxpayer [] [] ''hh-3'' ''California'' 10050 0 0)) = Some 3 \<and>
   map_option total_state_tax
     (snd (process_taxpayer [] [] ''hh-3'' ''California'' 10050 0 0)) = Some 402"
proof -
  have i: "itemized_spec [] 10050 0 0 = 0" by (simp add: itemized_spec_def)
  have t: "taxable (calculate_federal_tax [] 10050 0 0 0) = 50"
    by (simp add: fed_fields(2) deduction_spec_def i)
  have tot: "total (calculate_federal_tax [] 10050 0 0 0) = 5 / 2"
    by (simp add: fed_fields(4,5) t fed_brackets_marginal federal_marginal_def portion_def)
  have tt: "taxpayer_taxes [] [] ''hh-3'' ''California'' 10050 0 0 =
      (calculate_federal_tax [] 10050 0 0 0, 402, 0)"
    by (simp add: taxpayer_taxes_def no_transactions calculate_state_tax_def Let_def fed_fields(4))
  have ts: "taxable_income (calculate_federal_tax_st 10050 0 (Some 0) (Some 0) []) = 50"
    by (simp add: fed_fields_st(2) deduction_spec_def i)
  have fs: "final_federal_tax (calculate_federal_tax_st 10050 0 (Some 0) (Some 0) []) = 5 / 2"
    by (simp add: fed_fields_st(6,8,9) ts federal_chunks_marginal federal_marginal_def portion_def)
  have p: "py_round (5 / 2) = 2" using py_round_half[of 2] by simp
  have r: "round_dollar (5 / 2) = 3" using round_dollar_half_up(1)[of 2] by simp
  have st: "calculate_state_tax_st ''California'' 10050 (Some 0)
     (calculate_federal_tax_st 10050 0 (Some 0) (Some 0) []) = (2, 402)"
    by (simp add: calculate_state_tax_st_def fs final_state_tax_st_def fed_fields_st(6) p
        py_round_numeral)
  show ?thesis
    by (simp add: process_taxpayer_fields tt tot st fs r round_dollar_numeral)
qed

section \<open>Overselling\<close>





lemma valid_buys_closed: "valid_buys (map close_lot buys) = []"
  by (induction buys) (auto simp: valid_buys_def close_lot_def)







lemmas cg_eval = process_capital_gains_def run_capital_gains_def cg_init_def process_txn_def
  sell_loop.simps valid_buys_def Let_def

lemmas cg_eval_st = calculate_capital_gains_st_def process_sale_st_def with_remaining_def



section \<open>FIFO matching\<close>

lemma fifo_done: "sh \<le> 0 \<Longrightarrow> fifo t_id sp sh bs = (bs, sh, [])"
  by (induction bs) auto

lemma sell_loop_skip:
  "\<not> remaining b > 0 \<Longrightarrow>
   sell_loop tp a t_id sp (b # buys, sh, g, rows, lg) =
     (case sell_loop tp a t_id sp (buys, sh, g, rows, lg) of
        (bs', r) \<Rightarrow> (b # bs', r))"
proof (induction tp a t_id sp "(buys, sh, g, rows, lg)" arbitrary: buys sh g rows lg
    rule: sell_loop.induct)
  case (1 tp a t_id sp buys sh g rows lg)
  have v: "valid_buys (b # buys) = valid_buys buys"
    using "1.prems" by (simp add: valid_buys_def)
  show ?case
  proof (cases "sh > 0")
    case False
    then show ?thesis by (simp add: sell_loop.simps)
  next
    case True
    show ?thesis
    proof (cases "valid_buys buys")
      case Nil
      with True v show ?thesis by (simp add: sell_loop.simps)
    next
      case (Cons e rest)
      let ?m = "min sh (remaining e)"
      have d: "decrement_earliest ?m (b # buys) = b # decrement_earliest ?m buys"
        using "1.prems" by simp
      show ?thesis
        using True Cons v d "1.hyps"[OF True Cons refl refl "1.prems"]
        by (subst sell_loop.simps, subst (2) sell_loop.simps) (simp add: Let_def)
    qed
  qed
qed

text \<open>
  The loop of the event-loop variant, which searches the earliest open lot anew in every
  round, computes this matching.
\<close>

lemma sell_loop_fifo:
  "sell_loop tp a t_id sp (buys, sh, g, rows, lg) = fifo_result tp a t_id sp (buys, sh, g, rows, lg)"
proof (induction buys arbitrary: sh g rows lg)
  case Nil
  show ?case by (simp add: sell_loop.simps fifo_result_def valid_buys_def)
next
  case (Cons b buys)
  show ?case
  proof (cases "sh > 0 \<and> remaining b > 0")
    case False
    show ?thesis
    proof (cases "sh > 0")
      case False
      then show ?thesis by (simp add: sell_loop.simps fifo_result_def fifo_done)
    next
      case True
      with False have nb: "\<not> remaining b > 0" by simp
      show ?thesis
        using nb True by (simp add: sell_loop_skip Cons.IH fifo_result_def split: prod.splits)
    qed
  next
    case True
    let ?m = "min sh (remaining b)"
    let ?b' = "b\<lparr>remaining := remaining b - ?m\<rparr>"
    let ?row = "\<lparr>sell_transaction_id = t_id, buy_transaction_id = lot_id b,
                  matched_quantity = ?m, gain_amount = ?m * (sp - price b)\<rparr>"
    have v: "valid_buys (b # buys) = b # valid_buys buys"
      using True by (simp add: valid_buys_def)
    have step: "sell_loop tp a t_id sp (b # buys, sh, g, rows, lg) =
        sell_loop tp a t_id sp (?b' # buys, sh - ?m, g + ?m * (sp - price b), rows @ [?row], lg)"
      using True v by (subst sell_loop.simps) (simp add: Let_def)
    show ?thesis
    proof (cases "sh < remaining b")
      case True
      then have z: "sh - ?m = 0" by simp
      show ?thesis
        unfolding step z using True \<open>sh > 0 \<and> remaining b > 0\<close>
        by (simp add: sell_loop.simps fifo_result_def fifo_done)
    next
      case False
      then have c: "\<not> remaining ?b' > 0" by simp
      show ?thesis
        unfolding step sell_loop_skip[OF c] Cons.IH
        using True by (simp add: fifo_result_def Let_def split: prod.splits)
    qed
  qed
qed

text \<open>
  In the event-loop variant the net realized gain is the sum of the gains of the recorded
  matches, and a transaction leaves the lots of every other asset as they are.
\<close>

lemma sell_loop_gain_sum:
  "sell_loop tp a t_id sp s = s' \<Longrightarrow>
   fst (snd (snd s')) - sum_list (map gain_amount (fst (snd (snd (snd s'))))) =
   fst (snd (snd s)) - sum_list (map gain_amount (fst (snd (snd (snd s)))))"
proof (induction tp a t_id sp s arbitrary: s' rule: sell_loop.induct)
  case (1 tp a t_id sp buys shares gains rows logged)
  show ?case
  proof (cases "shares > 0")
    case False
    with "1.prems" show ?thesis by (simp add: sell_loop.simps)
  next
    case True
    show ?thesis
    proof (cases "valid_buys buys")
      case Nil
      with True "1.prems" show ?thesis by (auto simp: sell_loop.simps)
    next
      case (Cons b rest)
      let ?m = "min shares (remaining b)"
      let ?g = "?m * (sp - price b)"
      let ?s1 = "(decrement_earliest ?m buys, shares - ?m, gains + ?g,
                  rows @ [\<lparr>sell_transaction_id = t_id, buy_transaction_id = lot_id b,
                            matched_quantity = ?m, gain_amount = ?g\<rparr>], logged)"
      have e: "sell_loop tp a t_id sp (buys, shares, gains, rows, logged) =
               sell_loop tp a t_id sp ?s1"
        using True Cons by (subst sell_loop.simps) (simp add: Let_def)
      with "1.prems" have "sell_loop tp a t_id sp ?s1 = s'" by simp
      from "1.IH"[OF True Cons refl refl this] show ?thesis by simp
    qed
  qed
qed

lemma process_txn_gain_sum:
  "realized_gains_total (process_txn tp st t) -
     sum_list (map gain_amount (realized_gains (process_txn tp st t))) =
   realized_gains_total st - sum_list (map gain_amount (realized_gains st))"
proof -
  have "realized_gains_total st' - sum_list (map gain_amount (realized_gains st')) =
        realized_gains_total st - sum_list (map gain_amount (realized_gains st))"
    if "sell_loop tp a k sp (buys, q, realized_gains_total st, realized_gains st, warnings st) =
          (buys', sh, g, rows, lg)"
      and "st' = \<lparr>portfolio = pf, realized_gains_total = g, realized_gains = rows, warnings = lg\<rparr>"
    for a k sp buys q buys' sh g rows lg st' pf
    using sell_loop_gain_sum[OF that(1)] that(2) by simp
  then show ?thesis
    by (auto simp: process_txn_def Let_def split: prod.splits)
qed

lemma run_gain_sum:
  "realized_gains_total (foldl (process_txn tp) st ts) -
     sum_list (map gain_amount (realized_gains (foldl (process_txn tp) st ts))) =
   realized_gains_total st - sum_list (map gain_amount (realized_gains st))"
  by (induction ts arbitrary: st) (simp_all add: process_txn_gain_sum)

lemma net_gain_is_sum_of_matches:
  "process_capital_gains tp ts = sum_list (map gain_amount (realized_gains (run_capital_gains tp ts)))"
  using run_gain_sum[of tp cg_init ts]
  by (simp add: process_capital_gains_def run_capital_gains_def cg_init_def)

lemma other_assets_untouched:
  "a \<noteq> asset_id t \<Longrightarrow> lots_of (portfolio (process_txn tp st t)) a = lots_of (portfolio st) a"
  by (auto simp: process_txn_def lots_of_def Let_def split: option.splits prod.splits)

text \<open>
  When the transaction ids increase along the list, the earliest open lot is the open lot
  with the smallest id.
\<close>

lemma earliest_has_smallest_id:
  assumes "sorted_wrt (<) (map lot_id buys)" and "valid_buys buys = b # rest"
  shows "\<forall>c \<in> set rest. lot_id b < lot_id c"
proof -
  have "sorted_wrt (\<lambda>x y. lot_id x < lot_id y) buys"
    using assms(1) by (simp add: sorted_wrt_map)
  then have "sorted_wrt (\<lambda>x y. lot_id x < lot_id y) (valid_buys buys)"
    unfolding valid_buys_def by (rule sorted_wrt_filter)
  with assms(2) show ?thesis by simp
qed

text \<open>
  C1 at a household that buys 10 of AAA at 1, then 10 of BBB at 5, and sells 10 of BBB at
  10. The sequential variant walks all purchases of the household and takes the 10 shares
  from the AAA lot: cost basis 10, gain 90. Matching within the asset, as the event-loop
  variant does, gives \<open>10 \<times> (10 - 5) = 50\<close>.
\<close>

theorem cross_asset_matching_st:
  "calculate_capital_gains_st
     [\<lparr>row_id = 1, row_asset_id = ''AAA'', row_date = ''2024-01-01'', row_quantity = 10,
       row_unit_price = 1\<rparr>,
      \<lparr>row_id = 2, row_asset_id = ''BBB'', row_date = ''2024-01-02'', row_quantity = 10,
       row_unit_price = 5\<rparr>]
     [\<lparr>row_id = 1, row_asset_id = ''BBB'', row_date = ''2024-02-01'', row_quantity = 10,
       row_unit_price = 10\<rparr>] = (90, 100, 10) \<and>
   process_capital_gains ''hh-6''
     [\<lparr>transaction_id = 1, transaction_type = ''BUY'', asset_id = ''AAA'', quantity = 10,
       unit_price = 1, remaining_quantity = Some 10\<rparr>,
      \<lparr>transaction_id = 2, transaction_type = ''BUY'', asset_id = ''BBB'', quantity = 10,
       unit_price = 5, remaining_quantity = Some 10\<rparr>,
      \<lparr>transaction_id = 3, transaction_type = ''SELL'', asset_id = ''BBB'', quantity = 10,
       unit_price = 10, remaining_quantity = None\<rparr>] = 10 * (10 - 5)"
  by (simp add: cg_eval cg_eval_st)

end
